theory Spec2Isabelle
  imports Main "HOL-Library.AList"
begin

section \<open>kaishaku: detached-HEAD sessions (src/kaishaku.c)\<close>

text \<open>
  The program is a single C file. Each command (\<open>cmd_checkout\<close>, \<open>cmd_switch\<close>, ...) reads and
  writes small files (the active pointer and the directories of the sessions under
  \<open>.git/kaishaku\<close>, and the records of the sessions) and runs \<open>git\<close> through \<open>popen\<close>. The
  embedding keeps the source's names and statement order. What lies outside the C file is
  modelled as follows.

  \<^item> The file system is an association list from path strings to nodes, in directory
    enumeration order. Paths are compared literally (no normalisation of \<open>..\<close> or \<open>//\<close>);
    relative paths are relative to the working directory of the process, the top of the
    repository. \<open>access\<close>, \<open>stat\<close>, \<open>mkdir\<close>, \<open>fopen\<close>, \<open>unlink\<close>, \<open>rmdir\<close> behave as in POSIX on
    such a tree. Permissions are not modelled: a directory is in the tree when the process
    may create files in it, so a root directory that the process may not write to is a
    tree without the entry \<open>/\<close>.
  \<^item> \<open>git\<close> is a parameter: any function from a command line and a VCS state to a process
    outcome and a new VCS state.
  \<^item> The two \<open>static char\<close> arrays of the source (\<open>path_buffer\<close> in \<open>safe_path_join\<close>, \<open>buffer\<close>
    in \<open>read_from_file\<close>) are fields of the state, and a \<open>char*\<close> is a value of type \<open>ptr\<close>:
    every pointer returned by \<open>safe_path_join\<close> is \<open>PathBuf\<close>, every non-null pointer returned
    by \<open>read_from_file\<close> is \<open>ReadBuf\<close>, and a string is read through a pointer at the moment the
    source reads it.
  \<^item> \<open>exit(n)\<close> ends the run: a command returns \<open>Exit n w\<close> or \<open>Ret x w\<close>.
  \<^item> Output is a trace of events; a message is a constructor carrying the arguments of the
    source's format string (the colour escape sequences are left out).
\<close>

subsection \<open>Strings and paths\<close>

definition newline :: char where
  "newline = CHR 0x0A"



text \<open>\<open>fgets(buf, n, fp)\<close> followed by the removal of a trailing newline, on a stream whose
  remaining content is \<open>s\<close> (\<open>s\<close> not empty): at most \<open>n - 1\<close> characters, up to the first newline.\<close>

definition fgets_line :: "nat \<Rightarrow> string \<Rightarrow> string" where
  "fgets_line n s = takeWhile (\<lambda>c. c \<noteq> newline) (take (n - 1) s)"

text \<open>\<open>snprintf(buf, n, ...)\<close>: the formatted text, cut to \<open>n - 1\<close> characters.\<close>

definition snprintf :: "nat \<Rightarrow> string \<Rightarrow> string" where
  "snprintf n s = take (n - 1) s"

text \<open>The parent directory of a path without a trailing slash, as \<open>dirname(3)\<close> gives it:
  \<open>.\<close> for a path without a slash and \<open>/\<close> for an entry of the root directory.\<close>

definition dirname :: "string \<Rightarrow> string" where
  "dirname p =
     (if CHR ''/'' \<notin> set p then ''.''
      else (let d = rev (tl (dropWhile (\<lambda>c. c \<noteq> CHR ''/'') (rev p)))
            in if d = [] then ''/'' else d))"

definition basename :: "string \<Rightarrow> string" where
  "basename p = rev (takeWhile (\<lambda>c. c \<noteq> CHR ''/'') (rev p))"

definition DEFAULT_BUFFER_SIZE :: nat where
  "DEFAULT_BUFFER_SIZE = 512"

definition MAX_PATH_LENGTH :: nat where
  "MAX_PATH_LENGTH = 1024"

definition KAISHAKU_DIR :: string where
  "KAISHAKU_DIR = ''.git/kaishaku''"

definition ACTIVE_FILE :: string where
  "ACTIVE_FILE = ''.git/kaishaku/.active''"

subsection \<open>The file system\<close>

datatype node = File string | Dir

type_synonym fsys = "(string \<times> node) list"

definition children :: "fsys \<Rightarrow> string \<Rightarrow> string list" where
  "children fs d = map (\<lambda>e. basename (fst e)) (filter (\<lambda>e. dirname (fst e) = d) fs)"

definition fs_mkdir :: "string \<Rightarrow> fsys \<Rightarrow> fsys option" where
  "fs_mkdir p fs =
     (if map_of fs p = None \<and> map_of fs (dirname p) = Some Dir
      then Some (AList.update p Dir fs) else None)"

text \<open>\<open>fopen(p, "w")\<close>, the write and \<open>fclose\<close>: the file is created or replaced when \<open>p\<close> is a
  file or is absent from an existing directory.\<close>

definition fs_write :: "string \<Rightarrow> string \<Rightarrow> fsys \<Rightarrow> fsys option" where
  "fs_write p c fs =
     (case map_of fs p of
        Some (File old) \<Rightarrow> Some (AList.update p (File c) fs)
      | Some Dir \<Rightarrow> None
      | None \<Rightarrow> if map_of fs (dirname p) = Some Dir
                then Some (AList.update p (File c) fs) else None)"

text \<open>\<open>fopen(p, "r")\<close> and one \<open>fgets\<close> into a buffer of \<open>DEFAULT_BUFFER_SIZE\<close> bytes: nothing
  is read from a missing path, a directory or an empty file.\<close>

definition fs_read_line :: "string \<Rightarrow> fsys \<Rightarrow> string option" where
  "fs_read_line p fs =
     (case map_of fs p of
        Some (File c) \<Rightarrow> if c = [] then None else Some (fgets_line DEFAULT_BUFFER_SIZE c)
      | Some Dir \<Rightarrow> None
      | None \<Rightarrow> None)"

definition fs_unlink :: "string \<Rightarrow> fsys \<Rightarrow> fsys option" where
  "fs_unlink p fs =
     (case map_of fs p of
        Some (File c) \<Rightarrow> Some (AList.delete p fs)
      | Some Dir \<Rightarrow> None
      | None \<Rightarrow> None)"

definition fs_rmdir :: "string \<Rightarrow> fsys \<Rightarrow> fsys option" where
  "fs_rmdir p fs =
     (case map_of fs p of
        Some Dir \<Rightarrow> if children fs p = [] then Some (AList.delete p fs) else None
      | Some (File c) \<Rightarrow> None
      | None \<Rightarrow> None)"

subsection \<open>Processes, messages and the state\<close>

text \<open>The outcome of \<open>popen(cmd)\<close> ... \<open>pclose\<close>: the process could not be started, or it wrote
  \<open>output\<close> and ended with an exit status (a failed \<open>pclose\<close> counts as a nonzero status).\<close>

datatype proc = NoSpawn | Done string nat

text \<open>The global \<open>error_message\<close>, by the format that filled it.\<close>

datatype gerr =
    NoError
  | ExecFailed string
  | NoOutput string
  | BadStatus nat string

datatype msg =
    Usage
  | PathTooLong string string
  | ErrMkdir string
  | ErrAccessDir string
  | ErrNotDir string
  | ErrWrite string
  | ErrGit gerr
  | WarnGit gerr
  | Started string string
  | ErrNotFound string
  | Switched string
  | ErrNoActive
  | ErrReadActive
  | ErrNoOriginal string
  | ErrCreateBranch gerr
  | ErrReturn gerr
  | ErrMerge
  | WarnDeleteBranch string
  | Saved string string
  | Prompt
  | Aborted
  | ErrSave gerr
  | ChangesSaved
  | ContinuingNoStash
  | Stashed
  | Discarded
  | NoChanges
  | Returned string string
  | NoSessions
  | ErrOpenDir
  | Header
  | WarnCorrupted string
  | Entry bool string
  | LastModified string
  | OriginalBranch string bool
  | SessionHead string bool
  | WarnMaybeCorrupted
  | ErrCleanActive string
  | ErrRemoveFiles
  | ErrRemoveDir
  | Cleaned string
  | CleanedCount nat
  | ErrNoSessions
  | ErrAlreadyActive string
  | ErrCorrupted string
  | WarnNoBranch string
  | ErrCreate string
  | ErrActivate
  | ErrCheckout gerr
  | Recovered string
  | ErrNoActiveAbort
  | AbortedSession string

text \<open>\<open>Out\<close> is a line on stdout, \<open>Err\<close> a line on stderr, \<open>Git cmd ok\<close> one call of
  \<open>execute_git_command(cmd, ...)\<close> and what it returned.\<close>

datatype event = Out msg | Err msg | Git string bool

record config_t =
  confirm_exit :: int
  auto_stash :: int
  auto_save :: int

record 'g world =
  disk :: fsys
  path_buffer :: string
  buffer :: string
  error_message :: gerr
  config :: config_t
  vcs :: 'g
  stdin :: string
  trace :: "event list"

text \<open>What the C file takes from its environment: the VCS behind \<open>popen\<close>, the decimal text
  of \<open>time(NULL)\<close>, and \<open>atol\<close>, \<open>localtime\<close>, \<open>strftime\<close> on a stored time stamp (\<open>None\<close> when
  \<open>localtime\<close> fails).\<close>

record 'g env =
  git :: "string \<Rightarrow> 'g \<Rightarrow> proc \<times> 'g"
  clock :: string
  local_time :: "string \<Rightarrow> string option"

datatype ptr = Null | Mem string | PathBuf | ReadBuf

text \<open>The string a \<open>char*\<close> points to now. \<open>Mem s\<close> is memory nothing else writes during the
  command (an argument, a literal, a local array). A null pointer only reaches \<open>printf\<close>-style
  formatting, where glibc prints \<open>(null)\<close>.\<close>

definition cstr :: "'g world \<Rightarrow> ptr \<Rightarrow> string" where
  "cstr w p = (case p of Null \<Rightarrow> ''(null)'' | Mem s \<Rightarrow> s
               | PathBuf \<Rightarrow> path_buffer w | ReadBuf \<Rightarrow> buffer w)"

datatype ('a, 'w) res = Exit nat 'w | Ret 'a 'w

definition bnd :: "('w \<Rightarrow> ('a, 'w) res) \<Rightarrow> ('a \<Rightarrow> 'w \<Rightarrow> ('b, 'w) res) \<Rightarrow> 'w \<Rightarrow> ('b, 'w) res" where
  "bnd m f w = (case m w of Exit c w' \<Rightarrow> Exit c w' | Ret x w' \<Rightarrow> f x w')"

definition gets :: "('w \<Rightarrow> 'a) \<Rightarrow> 'w \<Rightarrow> ('a, 'w) res" where
  "gets f w = Ret (f w) w"

definition emit :: "event \<Rightarrow> 'g world \<Rightarrow> 'g world" where
  "emit e w = w\<lparr>trace := trace w @ [e]\<rparr>"

definition out :: "msg \<Rightarrow> 'g world \<Rightarrow> (unit, 'g world) res" where
  "out m w = Ret () (emit (Out m) w)"

definition err :: "msg \<Rightarrow> 'g world \<Rightarrow> (unit, 'g world) res" where
  "err m w = Ret () (emit (Err m) w)"

text \<open>A message on stderr followed by \<open>exit(EXIT_FAILURE)\<close>.\<close>

definition die :: "msg \<Rightarrow> 'g world \<Rightarrow> ('a, 'g world) res" where
  "die m w = Exit 1 (emit (Err m) w)"

definition die_with :: "(gerr \<Rightarrow> msg) \<Rightarrow> 'g world \<Rightarrow> ('a, 'g world) res" where
  "die_with f w = Exit 1 (emit (Err (f (error_message w))) w)"

subsection \<open>The helpers of the source\<close>

definition usage :: "'g world \<Rightarrow> ('a, 'g world) res" where
  "usage w = Exit 0 (emit (Out Usage) w)"

text \<open>\<open>safe_path_join\<close> (lines 128-138) formats \<open>dir/file\<close> into the static \<open>path_buffer\<close> with
  \<open>snprintf\<close> and returns that buffer. In \<open>SESSION_FILE\<close>, \<open>HEAD_FILE\<close>, \<open>SESSION_TIME_FILE\<close> and
  \<open>SESSION_DESC_FILE\<close> the argument \<open>dir\<close> is the result of \<open>SESSION_DIR\<close>, the buffer itself, so
  that \<open>snprintf\<close> reads from the array it writes to. The C standard leaves the result of
  such a call undefined. The model follows glibc: its \<open>snprintf\<close> stores a terminating zero at the start of the destination before
  it formats, so a \<open>dir\<close> that is the buffer reads as the empty string and the result is
  \<open>/file\<close>. (The argument \<open>file\<close> is never the buffer in this program.)\<close>

definition safe_path_join :: "ptr \<Rightarrow> ptr \<Rightarrow> 'g world \<Rightarrow> (ptr, 'g world) res" where
  "safe_path_join dir file w =
     (let w0 = w\<lparr>path_buffer := []\<rparr>;
          full = cstr w0 dir @ ''/'' @ cstr w0 file;
          w1 = w\<lparr>path_buffer := snprintf MAX_PATH_LENGTH full\<rparr>
      in if MAX_PATH_LENGTH \<le> length full
         then Exit 1 (emit (Err (PathTooLong (cstr w1 dir) (cstr w1 file))) w1)
         else Ret PathBuf w1)"

definition SESSION_DIR :: "ptr \<Rightarrow> 'g world \<Rightarrow> (ptr, 'g world) res" where
  "SESSION_DIR session = safe_path_join (Mem KAISHAKU_DIR) session"

definition SESSION_FILE :: "ptr \<Rightarrow> 'g world \<Rightarrow> (ptr, 'g world) res" where
  "SESSION_FILE session = bnd (SESSION_DIR session) (\<lambda>d. safe_path_join d (Mem ''session''))"

definition HEAD_FILE :: "ptr \<Rightarrow> 'g world \<Rightarrow> (ptr, 'g world) res" where
  "HEAD_FILE session = bnd (SESSION_DIR session) (\<lambda>d. safe_path_join d (Mem ''head''))"

definition SESSION_TIME_FILE :: "ptr \<Rightarrow> 'g world \<Rightarrow> (ptr, 'g world) res" where
  "SESSION_TIME_FILE session = bnd (SESSION_DIR session) (\<lambda>d. safe_path_join d (Mem ''time''))"

definition SESSION_DESC_FILE :: "ptr \<Rightarrow> 'g world \<Rightarrow> (ptr, 'g world) res" where
  "SESSION_DESC_FILE session = bnd (SESSION_DIR session) (\<lambda>d. safe_path_join d (Mem ''desc''))"

definition file_exists :: "ptr \<Rightarrow> 'g world \<Rightarrow> (bool, 'g world) res" where
  "file_exists filename w = Ret (map_of (disk w) (cstr w filename) \<noteq> None) w"

text \<open>\<open>stat\<close> fails with \<open>ENOENT\<close> on a missing path, and with \<open>ENOTDIR\<close> when the parent is a
  file.\<close>

definition ensure_directory_exists :: "ptr \<Rightarrow> 'g world \<Rightarrow> (unit, 'g world) res" where
  "ensure_directory_exists dir w =
     (let d = cstr w dir in
      case map_of (disk w) d of
        None \<Rightarrow>
          (case map_of (disk w) (dirname d) of
             Some (File c) \<Rightarrow> die (ErrAccessDir d) w
           | Some Dir \<Rightarrow>
               (case fs_mkdir d (disk w) of
                  None \<Rightarrow> die (ErrMkdir d) w
                | Some fs' \<Rightarrow> Ret () (w\<lparr>disk := fs'\<rparr>))
           | None \<Rightarrow> die (ErrMkdir d) w)
      | Some Dir \<Rightarrow> Ret () w
      | Some (File c) \<Rightarrow> die (ErrNotDir d) w)"

text \<open>\<open>write_to_file\<close> writes \<open>content\<close> and a newline; it reports a failed \<open>fopen\<close> itself and
  returns 0.\<close>

definition write_to_file :: "ptr \<Rightarrow> ptr \<Rightarrow> 'g world \<Rightarrow> (bool, 'g world) res" where
  "write_to_file path content w =
     (let p = cstr w path; c = cstr w content in
      case fs_write p (c @ [newline]) (disk w) of
        None \<Rightarrow> Ret False (emit (Err (ErrWrite p)) w)
      | Some fs' \<Rightarrow> Ret True (w\<lparr>disk := fs'\<rparr>))"

text \<open>\<open>read_from_file\<close> returns \<open>NULL\<close> and leaves the static \<open>buffer\<close> as it was, or fills the
  buffer with the first line and returns the buffer.\<close>

definition read_from_file :: "ptr \<Rightarrow> 'g world \<Rightarrow> (ptr, 'g world) res" where
  "read_from_file path w =
     (case fs_read_line (cstr w path) (disk w) of
        None \<Rightarrow> Ret Null w
      | Some l \<Rightarrow> Ret ReadBuf (w\<lparr>buffer := l\<rparr>))"

text \<open>\<open>execute_git_command(cmd, output, size)\<close>; \<open>capture\<close> says that an output buffer (always
  of \<open>DEFAULT_BUFFER_SIZE\<close> bytes in this program) was passed. The result is the return value
  and the text left in the output buffer.\<close>

definition execute_git_command ::
  "'g env \<Rightarrow> string \<Rightarrow> bool \<Rightarrow> 'g world \<Rightarrow> (bool \<times> string, 'g world) res" where
  "execute_git_command E cmd capture w =
     (case git E cmd (vcs w) of
        (NoSpawn, g) \<Rightarrow>
          Ret (False, []) (emit (Git cmd False) (w\<lparr>error_message := ExecFailed cmd\<rparr>))
      | (Done output st, g) \<Rightarrow>
          if capture \<and> output = []
          then Ret (False, [])
                 (emit (Git cmd False) (w\<lparr>vcs := g, error_message := NoOutput cmd\<rparr>))
          else
            (let line = (if capture then fgets_line DEFAULT_BUFFER_SIZE output else [])
             in if st \<noteq> 0
                then Ret (False, line)
                       (emit (Git cmd False) (w\<lparr>vcs := g, error_message := BadStatus st cmd\<rparr>))
                else Ret (True, line) (emit (Git cmd True) (w\<lparr>vcs := g\<rparr>))))"

definition update_timestamp :: "'g env \<Rightarrow> ptr \<Rightarrow> 'g world \<Rightarrow> (unit, 'g world) res" where
  "update_timestamp E session =
     bnd (SESSION_TIME_FILE session) (\<lambda>tf.
     bnd (write_to_file tf (Mem (clock E))) (\<lambda>ok.
     Ret ()))"

definition get_session_time :: "'g env \<Rightarrow> ptr \<Rightarrow> 'g world \<Rightarrow> (string, 'g world) res" where
  "get_session_time E session =
     bnd (SESSION_TIME_FILE session) (\<lambda>tf.
     bnd (read_from_file tf) (\<lambda>timestamp.
     if timestamp = Null then Ret ''unknown''
     else bnd (gets (\<lambda>w. cstr w timestamp)) (\<lambda>ts.
          case local_time E ts of None \<Rightarrow> Ret ''invalid'' | Some t \<Rightarrow> Ret t)))"

text \<open>\<open>fprintf(stderr, ...)\<close> of a message whose argument is read through a pointer, followed
  by \<open>exit(EXIT_FAILURE)\<close>.\<close>

definition die_p :: "(string \<Rightarrow> msg) \<Rightarrow> ptr \<Rightarrow> 'g world \<Rightarrow> ('a, 'g world) res" where
  "die_p f p w = die (f (cstr w p)) w"

text \<open>\<open>unlink\<close> and \<open>rmdir\<close>: the result says whether the call returned 0.\<close>

definition unlink :: "ptr \<Rightarrow> 'g world \<Rightarrow> (bool, 'g world) res" where
  "unlink path w =
     (case fs_unlink (cstr w path) (disk w) of
        None \<Rightarrow> Ret False w
      | Some fs' \<Rightarrow> Ret True (w\<lparr>disk := fs'\<rparr>))"

definition rmdir :: "ptr \<Rightarrow> 'g world \<Rightarrow> (bool, 'g world) res" where
  "rmdir path w =
     (case fs_rmdir (cstr w path) (disk w) of
        None \<Rightarrow> Ret False w
      | Some fs' \<Rightarrow> Ret True (w\<lparr>disk := fs'\<rparr>))"

text \<open>\<open>opendir\<close> and the \<open>readdir\<close> sequence of a directory: \<open>.\<close>, \<open>..\<close> and the entries.\<close>

definition opendir :: "string \<Rightarrow> 'g world \<Rightarrow> (string list option, 'g world) res" where
  "opendir d w =
     Ret (case map_of (disk w) d of
            Some Dir \<Rightarrow> Some (''.'' # ''..'' # children (disk w) d)
          | Some (File c) \<Rightarrow> None
          | None \<Rightarrow> None) w"


subsection \<open>The command lines\<close>

text \<open>The \<open>snprintf\<close> formats of the \<open>git\<close> command lines, each with the size of the buffer
  the source formats it into (\<open>git_checkout_detach\<close> is used with two sizes).\<close>

definition git_checkout_detach :: "nat \<Rightarrow> string \<Rightarrow> string" where
  "git_checkout_detach n ref = snprintf n (''git checkout '' @ ref @ '' --detach'')"

definition git_checkout :: "string \<Rightarrow> string" where
  "git_checkout ref = snprintf DEFAULT_BUFFER_SIZE (''git checkout '' @ ref)"

definition git_checkout_b :: "string \<Rightarrow> string" where
  "git_checkout_b name = snprintf DEFAULT_BUFFER_SIZE (''git checkout -b '' @ name)"

definition git_merge :: "string \<Rightarrow> string" where
  "git_merge name = snprintf DEFAULT_BUFFER_SIZE (''git merge '' @ name)"

definition git_branch_D :: "string \<Rightarrow> string" where
  "git_branch_D name = snprintf DEFAULT_BUFFER_SIZE (''git branch -D '' @ name)"

definition git_verify :: "string \<Rightarrow> string" where
  "git_verify ref = snprintf DEFAULT_BUFFER_SIZE (''git rev-parse --verify '' @ ref)"

subsection \<open>The commands\<close>

text \<open>\<open>cmd_checkout\<close> (lines 280-327).\<close>

definition cmd_checkout ::
  "'g env \<Rightarrow> string option \<Rightarrow> string option \<Rightarrow> 'g world \<Rightarrow> (unit, 'g world) res" where
  "cmd_checkout E session commit =
     (case session of None \<Rightarrow> usage | Some s \<Rightarrow>
      bnd (ensure_directory_exists (Mem KAISHAKU_DIR)) (\<lambda>u.
      bnd (SESSION_DIR (Mem s)) (\<lambda>session_dir.
      bnd (ensure_directory_exists session_dir) (\<lambda>u.
      bnd (execute_git_command E ''git rev-parse --abbrev-ref HEAD'' True) (\<lambda>(ok, current_branch).
      if \<not> ok then die_with ErrGit else
      bnd (SESSION_FILE (Mem s)) (\<lambda>sf.
      bnd (write_to_file sf (Mem current_branch)) (\<lambda>ok.
      if \<not> ok then Exit 1 else
      bnd (case commit of
             Some c \<Rightarrow> Ret c
           | None \<Rightarrow>
               bnd (execute_git_command E ''git rev-parse HEAD'' True) (\<lambda>(ok, head_hash).
               if \<not> ok then die_with ErrGit else Ret head_hash)) (\<lambda>commit.
      bnd (HEAD_FILE (Mem s)) (\<lambda>hf.
      bnd (write_to_file hf (Mem commit)) (\<lambda>ok.
      if \<not> ok then Exit 1 else
      bnd (write_to_file (Mem ACTIVE_FILE) (Mem s)) (\<lambda>ok.
      if \<not> ok then Exit 1 else
      bnd (update_timestamp E (Mem s)) (\<lambda>u.
      bnd (execute_git_command E
             (git_checkout_detach (DEFAULT_BUFFER_SIZE + 27) commit) False) (\<lambda>(ok, line).
      if \<not> ok then die_with ErrGit else
      out (Started s commit))))))))))))))"

text \<open>\<open>cmd_switch\<close> (lines 329-356).\<close>

definition cmd_switch :: "'g env \<Rightarrow> string option \<Rightarrow> 'g world \<Rightarrow> (unit, 'g world) res" where
  "cmd_switch E session =
     (case session of None \<Rightarrow> usage | Some s \<Rightarrow>
      bnd (ensure_directory_exists (Mem KAISHAKU_DIR)) (\<lambda>u.
      bnd (HEAD_FILE (Mem s)) (\<lambda>hf.
      bnd (read_from_file hf) (\<lambda>target_head.
      if target_head = Null then die (ErrNotFound s) else
      bnd (write_to_file (Mem ACTIVE_FILE) (Mem s)) (\<lambda>ok.
      if \<not> ok then Exit 1 else
      bnd (update_timestamp E (Mem s)) (\<lambda>u.
      bnd (gets (\<lambda>w. git_checkout_detach DEFAULT_BUFFER_SIZE (cstr w target_head))) (\<lambda>git_cmd.
      bnd (execute_git_command E git_cmd False) (\<lambda>(ok, line).
      if \<not> ok then die_with ErrGit else
      out (Switched s)))))))))"

text \<open>\<open>cmd_save\<close> (lines 389-447) and \<open>cmd_exit\<close> (lines 449-556) start with the same
  statements (393-408 and 450-465; the messages differ in a full stop only):
  \<open>active_original\<close> returns the pointers \<open>session\<close> and \<open>original_branch\<close>. After the second
  \<open>read_from_file\<close> both point to the static read buffer.\<close>

definition active_original :: "'g world \<Rightarrow> (ptr \<times> ptr, 'g world) res" where
  "active_original =
     bnd (file_exists (Mem ACTIVE_FILE)) (\<lambda>ex.
     if \<not> ex then die ErrNoActive else
     bnd (read_from_file (Mem ACTIVE_FILE)) (\<lambda>session.
     if session = Null then die ErrReadActive else
     bnd (SESSION_FILE session) (\<lambda>sf.
     bnd (read_from_file sf) (\<lambda>original_branch.
     if original_branch = Null then die_p ErrNoOriginal session else
     Ret (session, original_branch)))))"

text \<open>\<open>cmd_save\<close>: the branch taken when the merge fails (lines 428-434) and the rest of the
  function after a merge that succeeded (lines 437-446).\<close>

definition save_cleanup :: "'g env \<Rightarrow> string \<Rightarrow> 'g world \<Rightarrow> (unit, 'g world) res" where
  "save_cleanup E b =
     bnd (execute_git_command E (git_checkout b) False) (\<lambda>r.
     bnd (execute_git_command E (git_branch_D b) False) (\<lambda>r.
     die ErrMerge))"

definition save_finish ::
  "'g env \<Rightarrow> string \<Rightarrow> ptr \<Rightarrow> ptr \<Rightarrow> 'g world \<Rightarrow> (unit, 'g world) res" where
  "save_finish E b session original_branch =
     bnd (execute_git_command E (git_branch_D b) False) (\<lambda>(ok, line).
     bnd (if \<not> ok then err (WarnDeleteBranch b) else Ret ()) (\<lambda>u.
     bnd (HEAD_FILE session) (\<lambda>hf.
     bnd (write_to_file hf (Mem ''HEAD'')) (\<lambda>ok.
     bnd (update_timestamp E session) (\<lambda>u.
     bnd (gets (\<lambda>w. (cstr w session, cstr w original_branch))) (\<lambda>(s, ob).
     out (Saved s ob)))))))"

definition cmd_save :: "'g env \<Rightarrow> string option \<Rightarrow> 'g world \<Rightarrow> (unit, 'g world) res" where
  "cmd_save E branch_name =
     (case branch_name of None \<Rightarrow> usage | Some b \<Rightarrow>
      bnd active_original (\<lambda>(session, original_branch).
      bnd (execute_git_command E (git_checkout_b b) False) (\<lambda>(ok, line).
      if \<not> ok then die_with ErrCreateBranch else
      bnd (gets (\<lambda>w. git_checkout (cstr w original_branch))) (\<lambda>cmd.
      bnd (execute_git_command E cmd False) (\<lambda>(ok, line).
      if \<not> ok then die_with ErrReturn else
      bnd (execute_git_command E (git_merge b) False) (\<lambda>(ok, line).
      if \<not> ok then save_cleanup E b
      else save_finish E b session original_branch))))))"








text \<open>\<open>cmd_list\<close> (lines 595-694). \<open>list_entry\<close> is the body of the \<open>readdir\<close> loop (626-687) for
  one entry and returns the new value of \<open>found\<close>; the directory is enumerated as it was
  when \<open>opendir\<close> ran. \<open>session_file\<close> and \<open>head_file\<close> are both the static path buffer,
  \<open>original_branch\<close> and \<open>head\<close> both the static read buffer, which \<open>get_session_time\<close>
  fills again before the two are printed.\<close>

definition dotfile :: "string \<Rightarrow> bool" where
  "dotfile d = ((case d of [] \<Rightarrow> False | c # cs \<Rightarrow> c = CHR ''.'') \<or> d = ''.active'')"

definition verify_ref :: "'g env \<Rightarrow> ptr \<Rightarrow> 'g world \<Rightarrow> (bool, 'g world) res" where
  "verify_ref E p =
     (if p = Null then Ret True
      else bnd (gets (\<lambda>w. git_verify (cstr w p))) (\<lambda>c.
           bnd (execute_git_command E c False) (\<lambda>(ok, line). Ret ok)))"

definition or_unknown :: "ptr \<Rightarrow> 'g world \<Rightarrow> (string, 'g world) res" where
  "or_unknown p = gets (\<lambda>w. if p = Null then ''(unknown)'' else cstr w p)"

definition list_entry ::
  "'g env \<Rightarrow> string \<Rightarrow> string \<Rightarrow> bool \<Rightarrow> 'g world \<Rightarrow> (bool, 'g world) res" where
  "list_entry E active_session d found =
     (if dotfile d then Ret found else
      bnd (SESSION_FILE (Mem d)) (\<lambda>session_file.
      bnd (HEAD_FILE (Mem d)) (\<lambda>head_file.
      bnd (file_exists session_file) (\<lambda>e1.
      bnd (file_exists head_file) (\<lambda>e2.
      if \<not> (e1 \<and> e2) then bnd (err (WarnCorrupted d)) (\<lambda>u. Ret found) else
      bnd (read_from_file session_file) (\<lambda>original_branch.
      bnd (read_from_file head_file) (\<lambda>head.
      bnd (verify_ref E original_branch) (\<lambda>branch_exists.
      bnd (verify_ref E head) (\<lambda>commit_exists.
      bnd (out (Entry (active_session \<noteq> [] \<and> active_session = d) d)) (\<lambda>u.
      bnd (get_session_time E (Mem d)) (\<lambda>t.
      bnd (out (LastModified t)) (\<lambda>u.
      bnd (or_unknown original_branch) (\<lambda>ob.
      bnd (out (OriginalBranch ob (\<not> branch_exists))) (\<lambda>u.
      bnd (or_unknown head) (\<lambda>h.
      bnd (out (SessionHead h (\<not> commit_exists))) (\<lambda>u.
      bnd (if \<not> (branch_exists \<and> commit_exists) then out WarnMaybeCorrupted else Ret ()) (\<lambda>u.
      Ret True)))))))))))))))))"

fun list_loop ::
  "'g env \<Rightarrow> string \<Rightarrow> string list \<Rightarrow> bool \<Rightarrow> 'g world \<Rightarrow> (bool, 'g world) res" where
  "list_loop E active_session [] found = Ret found"
| "list_loop E active_session (d # ds) found =
     bnd (list_entry E active_session d found) (list_loop E active_session ds)"

definition cmd_list :: "'g env \<Rightarrow> 'g world \<Rightarrow> (unit, 'g world) res" where
  "cmd_list E =
     bnd (file_exists (Mem KAISHAKU_DIR)) (\<lambda>ex.
     if \<not> ex then out NoSessions else
     bnd (opendir KAISHAKU_DIR) (\<lambda>dir.
     case dir of None \<Rightarrow> die ErrOpenDir | Some entries \<Rightarrow>
     bnd (file_exists (Mem ACTIVE_FILE)) (\<lambda>ex.
     bnd (if ex then bnd (read_from_file (Mem ACTIVE_FILE)) (\<lambda>session.
                     if session = Null then Ret []
                     else gets (\<lambda>w. snprintf DEFAULT_BUFFER_SIZE (cstr w session)))
          else Ret []) (\<lambda>active_session.
     bnd (out Header) (\<lambda>u.
     bnd (list_loop E active_session entries False) (\<lambda>found.
     if \<not> found then out NoSessions else Ret ()))))))"

text \<open>\<open>cmd_clean\<close> (lines 696-781). \<open>clean_entry\<close> is the body of the \<open>readdir\<close> loop (747-775)
  for one entry and returns the new value of \<open>cleaned\<close>. \<open>session_dir\<close>, \<open>session_file\<close> and
  \<open>head_file\<close> are all the static path buffer.\<close>

definition clean_entry :: "string \<Rightarrow> nat \<Rightarrow> 'g world \<Rightarrow> (nat, 'g world) res" where
  "clean_entry d cleaned =
     (if dotfile d then Ret cleaned else
      bnd (SESSION_DIR (Mem d)) (\<lambda>session_dir.
      bnd (file_exists session_dir) (\<lambda>ex.
      if \<not> ex then Ret cleaned else
      bnd (file_exists (Mem ACTIVE_FILE)) (\<lambda>ex.
      bnd (if ex then bnd (read_from_file (Mem ACTIVE_FILE)) (\<lambda>active_session.
                      if active_session = Null then Ret False
                      else gets (\<lambda>w. cstr w active_session = d))
           else Ret False) (\<lambda>is_active.
      if is_active then Ret cleaned else
      bnd (SESSION_FILE (Mem d)) (\<lambda>session_file.
      bnd (HEAD_FILE (Mem d)) (\<lambda>head_file.
      bnd (unlink session_file) (\<lambda>r.
      bnd (unlink head_file) (\<lambda>r.
      bnd (rmdir session_dir) (\<lambda>r.
      Ret (cleaned + 1)))))))))))"

fun clean_loop :: "string list \<Rightarrow> nat \<Rightarrow> 'g world \<Rightarrow> (nat, 'g world) res" where
  "clean_loop [] cleaned = Ret cleaned"
| "clean_loop (d # ds) cleaned = bnd (clean_entry d cleaned) (clean_loop ds)"

definition cmd_clean :: "string option \<Rightarrow> 'g world \<Rightarrow> (unit, 'g world) res" where
  "cmd_clean session =
     bnd (file_exists (Mem KAISHAKU_DIR)) (\<lambda>ex.
     if \<not> ex then out NoSessions else
     bnd (file_exists (Mem ACTIVE_FILE)) (\<lambda>ex.
     bnd (if ex then bnd (read_from_file (Mem ACTIVE_FILE)) (\<lambda>active_session.
                     if active_session = Null then Ret ()
                     else bnd (gets (\<lambda>w. cstr w active_session)) (\<lambda>a.
                          if session = None \<or> session = Some a
                          then die (ErrCleanActive a) else Ret ()))
          else Ret ()) (\<lambda>u.
     case session of
       Some s \<Rightarrow>
         bnd (SESSION_DIR (Mem s)) (\<lambda>session_dir.
         bnd (file_exists session_dir) (\<lambda>ex.
         if \<not> ex then die (ErrNotFound s) else
         bnd (SESSION_FILE (Mem s)) (\<lambda>session_file.
         bnd (HEAD_FILE (Mem s)) (\<lambda>head_file.
         bnd (unlink session_file) (\<lambda>r1.
         if \<not> r1 then die ErrRemoveFiles else
         bnd (unlink head_file) (\<lambda>r2.
         if \<not> r2 then die ErrRemoveFiles else
         bnd (rmdir session_dir) (\<lambda>r3.
         if \<not> r3 then die ErrRemoveDir else
         out (Cleaned s))))))))
     | None \<Rightarrow>
         bnd (opendir KAISHAKU_DIR) (\<lambda>dir.
         case dir of None \<Rightarrow> die ErrOpenDir | Some entries \<Rightarrow>
         bnd (clean_loop entries 0) (\<lambda>cleaned.
         out (CleanedCount cleaned))))))"

text \<open>\<open>cmd_recover\<close> (lines 891-962). \<open>session_file\<close> and \<open>head_file\<close> are both the static path
  buffer, \<open>original_branch\<close> and \<open>head\<close> both the static read buffer.\<close>

definition cmd_recover :: "'g env \<Rightarrow> string option \<Rightarrow> 'g world \<Rightarrow> (unit, 'g world) res" where
  "cmd_recover E session =
     (case session of None \<Rightarrow> usage | Some s \<Rightarrow>
      bnd (file_exists (Mem KAISHAKU_DIR)) (\<lambda>ex.
      if \<not> ex then die ErrNoSessions else
      bnd (SESSION_DIR (Mem s)) (\<lambda>session_dir.
      bnd (file_exists session_dir) (\<lambda>ex.
      if \<not> ex then die (ErrNotFound s) else
      bnd (file_exists (Mem ACTIVE_FILE)) (\<lambda>ex.
      bnd (if ex then bnd (read_from_file (Mem ACTIVE_FILE)) (\<lambda>active_session.
                      if active_session = Null then Ret ()
                      else bnd (gets (\<lambda>w. cstr w active_session)) (\<lambda>a.
                           if a = s then die (ErrAlreadyActive s) else Ret ()))
           else Ret ()) (\<lambda>u.
      bnd (SESSION_FILE (Mem s)) (\<lambda>session_file.
      bnd (HEAD_FILE (Mem s)) (\<lambda>head_file.
      bnd (file_exists session_file) (\<lambda>e1.
      bnd (file_exists head_file) (\<lambda>e2.
      if \<not> (e1 \<and> e2) then die (ErrCorrupted s) else
      bnd (read_from_file session_file) (\<lambda>original_branch.
      bnd (read_from_file head_file) (\<lambda>head.
      bnd (gets (\<lambda>w. git_verify (cstr w original_branch))) (\<lambda>branch_check.
      bnd (execute_git_command E branch_check False) (\<lambda>(ok, line).
      bnd (if \<not> ok then
             bnd (gets (\<lambda>w. cstr w original_branch)) (\<lambda>ob.
             bnd (err (WarnNoBranch ob)) (\<lambda>u.
             bnd (execute_git_command E (git_checkout_b ob) False) (\<lambda>(ok, line).
             if \<not> ok then die (ErrCreate ob) else Ret ())))
           else Ret ()) (\<lambda>u.
      bnd (write_to_file (Mem ACTIVE_FILE) (Mem s)) (\<lambda>ok.
      if \<not> ok then die ErrActivate else
      bnd (gets (\<lambda>w. git_checkout_detach DEFAULT_BUFFER_SIZE (cstr w head))) (\<lambda>git_cmd.
      bnd (execute_git_command E git_cmd False) (\<lambda>(ok, line).
      if \<not> ok then die_with ErrCheckout else
      out (Recovered s)))))))))))))))))))"

text \<open>\<open>cmd_abort\<close> (lines 1007-1063). Without an argument \<open>session\<close> is the static read buffer;
  \<open>session_dir\<close> and the four file names are all the static path buffer.\<close>

definition cmd_abort :: "'g env \<Rightarrow> string option \<Rightarrow> 'g world \<Rightarrow> (unit, 'g world) res" where
  "cmd_abort E session_arg =
     bnd (file_exists (Mem KAISHAKU_DIR)) (\<lambda>ex.
     if \<not> ex then die ErrNoSessions else
     bnd (case session_arg of
            Some s \<Rightarrow> Ret (Mem s)
          | None \<Rightarrow>
              bnd (file_exists (Mem ACTIVE_FILE)) (\<lambda>ex.
              if \<not> ex then die ErrNoActiveAbort else
              bnd (read_from_file (Mem ACTIVE_FILE)) (\<lambda>session.
              if session = Null then die ErrReadActive else Ret session))) (\<lambda>session.
     bnd (SESSION_DIR session) (\<lambda>session_dir.
     bnd (file_exists session_dir) (\<lambda>ex.
     if \<not> ex then die_p ErrNotFound session else
     bnd (file_exists (Mem ACTIVE_FILE)) (\<lambda>ex.
     bnd (if ex then
            bnd (read_from_file (Mem ACTIVE_FILE)) (\<lambda>active_session.
            if active_session = Null then Ret () else
            bnd (gets (\<lambda>w. cstr w active_session = cstr w session)) (\<lambda>same.
            if \<not> same then Ret () else
            bnd (SESSION_FILE session) (\<lambda>sf.
            bnd (read_from_file sf) (\<lambda>original_branch.
            if original_branch = Null then Ret () else
            bnd (gets (\<lambda>w. git_checkout (cstr w original_branch))) (\<lambda>git_cmd.
            bnd (execute_git_command E git_cmd False) (\<lambda>(ok, line).
            if \<not> ok then die_with ErrReturn else
            bnd (unlink (Mem ACTIVE_FILE)) (\<lambda>r.
            Ret ())))))))
          else Ret ()) (\<lambda>u.
     bnd (SESSION_FILE session) (\<lambda>session_file.
     bnd (HEAD_FILE session) (\<lambda>head_file.
     bnd (SESSION_TIME_FILE session) (\<lambda>time_file.
     bnd (SESSION_DESC_FILE session) (\<lambda>desc_file.
     bnd (unlink session_file) (\<lambda>r.
     bnd (unlink head_file) (\<lambda>r.
     bnd (unlink time_file) (\<lambda>r.
     bnd (unlink desc_file) (\<lambda>r.
     bnd (rmdir session_dir) (\<lambda>r.
     bnd (gets (\<lambda>w. cstr w session)) (\<lambda>s.
     out (AbortedSession s)))))))))))))))))"

subsection \<open>Running the commands on concrete inputs\<close>

text \<open>A VCS for concrete runs: a table from command lines to process outcomes; a command
  that is not in the table succeeds without output. The default configuration is the
  initialiser of \<open>config\<close> in the source.\<close>

definition stub_git :: "(string \<times> proc) list \<Rightarrow> string \<Rightarrow> unit \<Rightarrow> proc \<times> unit" where
  "stub_git tab cmd g = (case map_of tab cmd of Some p \<Rightarrow> p | None \<Rightarrow> Done [] 0, g)"

definition stub_env :: "(string \<times> proc) list \<Rightarrow> unit env" where
  "stub_env tab = \<lparr>git = stub_git tab, clock = ''1700000000'', local_time = (\<lambda>ts. Some ts)\<rparr>"

definition default_config :: config_t where
  "default_config = \<lparr>confirm_exit = 1, auto_stash = 0, auto_save = 0\<rparr>"

definition world0 :: "fsys \<Rightarrow> unit world" where
  "world0 fs = \<lparr>disk = fs, path_buffer = [], buffer = [], error_message = NoError,
                config = default_config, vcs = (), stdin = [], trace = []\<rparr>"

subsection \<open>Observations of a run\<close>

text \<open>The state a run ends in, whether it returned to \<open>main\<close> (which then returns 0) or called
  \<open>exit\<close>, the process exit status, the events the run added to the trace, and the calls of
  \<open>execute_git_command\<close> among a list of events.\<close>

definition final :: "('a, 'w) res \<Rightarrow> 'w" where
  "final r = (case r of Exit c w \<Rightarrow> w | Ret x w \<Rightarrow> w)"

definition returned :: "('a, 'w) res \<Rightarrow> bool" where
  "returned r = (case r of Exit c w \<Rightarrow> False | Ret x w \<Rightarrow> True)"

definition exit_code :: "('a, 'w) res \<Rightarrow> nat" where
  "exit_code r = (case r of Exit c w \<Rightarrow> c | Ret x w \<Rightarrow> 0)"

definition emitted :: "'g world \<Rightarrow> ('a, 'g world) res \<Rightarrow> event list" where
  "emitted w r = drop (length (trace w)) (trace (final r))"

fun git_calls :: "event list \<Rightarrow> (string \<times> bool) list" where
  "git_calls [] = []"
| "git_calls (Git c ok # es) = (c, ok) # git_calls es"
| "git_calls (Out m # es) = git_calls es"
| "git_calls (Err m # es) = git_calls es"

text \<open>A new process starts with zeroed static storage; the disk and the VCS are what the
  previous process left. (\<open>load_config\<close>, which \<open>main\<close> runs first and which only creates
  \<open>.git/kaishaku\<close> when it is missing and reads the three flags through \<open>git config\<close>, is not
  part of the model; the flags are the field \<open>config\<close>.)\<close>

definition fresh :: "'g world \<Rightarrow> 'g world" where
  "fresh w = w\<lparr>path_buffer := [], buffer := [], error_message := NoError, trace := []\<rparr>"

text \<open>The path that \<open>SESSION_FILE\<close>, \<open>HEAD_FILE\<close>, \<open>SESSION_TIME_FILE\<close> and \<open>SESSION_DESC_FILE\<close>
  leave in the path buffer for the record \<open>name\<close>, whatever the session: the outer
  \<open>safe_path_join\<close> reads its \<open>dir\<close> as the empty string (lemma \<open>record_files\<close> below). The
  specification places the record under the directory of the session, at \<open>spec_path\<close>.\<close>

definition record_path :: "string \<Rightarrow> string" where
  "record_path name = ''/'' @ name"

definition spec_path :: "string \<Rightarrow> string \<Rightarrow> string" where
  "spec_path session name = KAISHAKU_DIR @ ''/'' @ session @ ''/'' @ name"

text \<open>Disks for concrete runs. \<open>disk_fresh\<close>: a repository in which no session has been opened,
  and a root directory in which the process may create files. \<open>disk_exp1\<close>: a session
  \<open>exp1\<close> opened on branch \<open>main\<close> at commit \<open>abc123\<close>, with its records both where the
  specification places them and where the program reads and writes them;
  \<open>disk_exp1_active\<close>: the same with \<open>exp1\<close> active; \<open>disk_exp1_sentinel\<close>: the same session
  after its head was set to the sentinel; \<open>disk_head_only\<close>: a session that has a \<open>head\<close>
  record and no \<open>session\<close> record, in both places; \<open>disk_exp1_spec\<close>: the session \<open>exp1\<close> with
  its records where the specification places them only, and a root directory that the
  process may not write to; \<open>disk_exp1_spec_active\<close>: the same with \<open>exp1\<close> active.\<close>

definition disk_fresh :: fsys where
  "disk_fresh = [(''/'', Dir), (''.git'', Dir)]"

definition disk_exp1_spec :: fsys where
  "disk_exp1_spec =
     [(''.git'', Dir), (''.git/kaishaku'', Dir), (''.git/kaishaku/exp1'', Dir),
      (''.git/kaishaku/exp1/session'', File (''main'' @ [newline])),
      (''.git/kaishaku/exp1/head'', File (''abc123'' @ [newline])),
      (''.git/kaishaku/exp1/time'', File (''1700000000'' @ [newline]))]"

definition disk_exp1 :: fsys where
  "disk_exp1 =
     disk_exp1_spec @
     [(''/'', Dir),
      (''/session'', File (''main'' @ [newline])),
      (''/head'', File (''abc123'' @ [newline])),
      (''/time'', File (''1700000000'' @ [newline]))]"

definition disk_exp1_spec_active :: fsys where
  "disk_exp1_spec_active =
     disk_exp1_spec @ [(''.git/kaishaku/.active'', File (''exp1'' @ [newline]))]"

definition disk_exp1_active :: fsys where
  "disk_exp1_active = disk_exp1 @ [(''.git/kaishaku/.active'', File (''exp1'' @ [newline]))]"

definition disk_exp1_sentinel :: fsys where
  "disk_exp1_sentinel =
     [(''.git'', Dir), (''.git/kaishaku'', Dir), (''.git/kaishaku/exp1'', Dir),
      (''.git/kaishaku/exp1/session'', File (''main'' @ [newline])),
      (''.git/kaishaku/exp1/head'', File (''HEAD'' @ [newline])),
      (''.git/kaishaku/exp1/time'', File (''1700000000'' @ [newline])),
      (''/'', Dir),
      (''/session'', File (''main'' @ [newline])),
      (''/head'', File (''HEAD'' @ [newline])),
      (''/time'', File (''1700000000'' @ [newline]))]"

definition disk_head_only :: fsys where
  "disk_head_only =
     [(''.git'', Dir), (''.git/kaishaku'', Dir), (''.git/kaishaku/exp1'', Dir),
      (''.git/kaishaku/exp1/head'', File (''abc123'' @ [newline])),
      (''/'', Dir),
      (''/head'', File (''abc123'' @ [newline]))]"




text \<open>\<open>execute_git_command\<close> always returns: its return value and the state it leaves.\<close>

definition git_result :: "'g env \<Rightarrow> string \<Rightarrow> bool \<Rightarrow> 'g world \<Rightarrow> bool \<times> string" where
  "git_result E c capture w =
     (case execute_git_command E c capture w of Ret x w' \<Rightarrow> x | Exit k w' \<Rightarrow> (False, []))"

definition git_world :: "'g env \<Rightarrow> string \<Rightarrow> bool \<Rightarrow> 'g world \<Rightarrow> 'g world" where
  "git_world E c capture w = final (execute_git_command E c capture w)"

section \<open>Auxiliary lemmas\<close>

subsection \<open>Sequencing, traces and the VCS gateway\<close>

lemma emit_fields:
  "trace (emit e w) = trace w @ [e]" "disk (emit e w) = disk w" "buffer (emit e w) = buffer w"
  "path_buffer (emit e w) = path_buffer w" "stdin (emit e w) = stdin w"
  "config (emit e w) = config w" "vcs (emit e w) = vcs w"
  "error_message (emit e w) = error_message w"
  by (simp_all add: emit_def)

lemma git_calls_append: "git_calls (xs @ ys) = git_calls xs @ git_calls ys"
  by (induction xs rule: git_calls.induct) auto

lemma execute_git_command_eq:
  "execute_git_command E c cap w = Ret (git_result E c cap w) (git_world E c cap w)"
  by (simp add: git_result_def git_world_def final_def execute_git_command_def Let_def
           split: prod.splits proc.splits)

lemma git_world_fields:
  "trace (git_world E c cap w) = trace w @ [Git c (fst (git_result E c cap w))]"
  "disk (git_world E c cap w) = disk w" "buffer (git_world E c cap w) = buffer w"
  "path_buffer (git_world E c cap w) = path_buffer w" "stdin (git_world E c cap w) = stdin w"
  "config (git_world E c cap w) = config w"
  by (simp_all add: git_result_def git_world_def final_def execute_git_command_def Let_def
           emit_fields split: prod.splits proc.splits)


subsection \<open>The active session and its original branch\<close>






subsection \<open>The phases of \<open>cmd_exit\<close>\<close>

















subsection \<open>Paths, command lines and the file system\<close>

lemma fs_write_SomeD:
  "fs_write p c fs = Some fs' \<Longrightarrow> map_of fs' = (map_of fs)(p \<mapsto> File c)"
  by (auto simp: fs_write_def update_conv' split: option.splits node.splits if_splits)

lemma fs_mkdir_SomeD:
  "fs_mkdir p fs = Some fs' \<Longrightarrow> map_of fs' = (map_of fs)(p \<mapsto> Dir)"
  by (auto simp: fs_mkdir_def update_conv' split: if_splits)

lemma record_path_neq [simp]:
  "ACTIVE_FILE \<noteq> CHR ''/'' # n" "CHR ''/'' # n \<noteq> ACTIVE_FILE"
  "KAISHAKU_DIR @ x \<noteq> CHR ''/'' # n" "CHR ''/'' # n \<noteq> KAISHAKU_DIR @ x"
  "KAISHAKU_DIR \<noteq> CHR ''/'' # n" "CHR ''/'' # n \<noteq> KAISHAKU_DIR"
  by (simp_all add: ACTIVE_FILE_def KAISHAKU_DIR_def)

text \<open>The four record macros: the path they leave in the buffer does not depend on the
  session.\<close>

lemma record_files:
  assumes "session \<noteq> PathBuf" "length (cstr w session) < 1000"
  shows "SESSION_FILE session w = Ret PathBuf (w\<lparr>path_buffer := record_path ''session''\<rparr>)"
    and "HEAD_FILE session w = Ret PathBuf (w\<lparr>path_buffer := record_path ''head''\<rparr>)"
    and "SESSION_TIME_FILE session w = Ret PathBuf (w\<lparr>path_buffer := record_path ''time''\<rparr>)"
    and "SESSION_DESC_FILE session w = Ret PathBuf (w\<lparr>path_buffer := record_path ''desc''\<rparr>)"
  using assms
  by (cases session;
      simp add: SESSION_FILE_def HEAD_FILE_def SESSION_TIME_FILE_def SESSION_DESC_FILE_def
        SESSION_DIR_def safe_path_join_def bnd_def cstr_def Let_def snprintf_def
        record_path_def MAX_PATH_LENGTH_def KAISHAKU_DIR_def)+

lemma git_merge_neq [simp]:
  "git_merge b \<noteq> git_checkout x" "git_merge b \<noteq> git_checkout_b x"
  "git_merge b \<noteq> git_branch_D x"
  "git_checkout x \<noteq> git_merge b" "git_checkout_b x \<noteq> git_merge b"
  "git_branch_D x \<noteq> git_merge b"
  by (simp_all add: git_merge_def git_checkout_def git_checkout_b_def git_branch_D_def
        snprintf_def DEFAULT_BUFFER_SIZE_def)


lemmas run_defs = bnd_def ensure_directory_exists_def HEAD_FILE_def SESSION_FILE_def
  SESSION_DIR_def SESSION_TIME_FILE_def update_timestamp_def file_exists_def
  safe_path_join_def read_from_file_def write_to_file_def die_def die_with_def die_p_def
  gets_def out_def err_def usage_def execute_git_command_eq cstr_def Let_def split_beta
  snprintf_def

subsection \<open>Runs of \<open>cmd_switch\<close>, \<open>cmd_recover\<close> and \<open>cmd_checkout\<close> that return\<close>

lemma cmd_switch_Ret:
  assumes "cmd_switch E (Some s) w = Ret u w'"
      and "fs_read_line (record_path ''head'') (disk w) = Some h"
  shows "map_of (disk w') ACTIVE_FILE = Some (File (s @ [newline]))
       \<and> (\<exists>es. trace w' = trace w @ es @
              [Git (git_checkout_detach DEFAULT_BUFFER_SIZE h) True, Out (Switched s)]
            \<and> git_calls es = [])"
  using assms
  apply (simp add: cmd_switch_def run_defs split: if_splits option.splits node.splits)
     apply (auto dest!: fs_write_SomeD fs_mkdir_SomeD
        simp: record_path_def fs_read_line_def git_world_fields emit_fields
        split: option.splits node.splits if_splits)
  done

lemma cmd_switch_Exit:
  assumes "cmd_switch E (Some s) w = Exit c w'"
      and "git_calls (drop (length (trace w)) (trace w')) \<noteq> []"
  shows "map_of (disk w') ACTIVE_FILE = Some (File (s @ [newline]))"
  using assms
  apply (simp add: cmd_switch_def run_defs split: if_splits option.splits node.splits)
     apply (auto dest!: fs_write_SomeD fs_mkdir_SomeD
        simp: record_path_def fs_read_line_def git_world_fields emit_fields
        split: option.splits node.splits if_splits)
  done

lemma cmd_recover_Ret:
  assumes "cmd_recover E (Some s) w = Ret u w'"
      and "fs_read_line (record_path ''head'') (disk w) = Some h"
  shows "map_of (disk w') ACTIVE_FILE = Some (File (s @ [newline]))
       \<and> (\<exists>es. trace w' = trace w @ es @
              [Git (git_checkout_detach DEFAULT_BUFFER_SIZE h) True, Out (Recovered s)])"
  using assms
  apply (simp add: cmd_recover_def run_defs split: if_splits option.splits node.splits)
     apply (auto dest!: fs_write_SomeD fs_mkdir_SomeD
        simp: record_path_def fs_read_line_def git_world_fields emit_fields
        split: option.splits node.splits if_splits)
  done



subsection \<open>Runs of \<open>cmd_save\<close> by the outcome of the merge\<close>

lemmas save_defs = cmd_save_def active_original_def save_cleanup_def save_finish_def
  bnd_def HEAD_FILE_def SESSION_FILE_def SESSION_DIR_def SESSION_TIME_FILE_def
  update_timestamp_def file_exists_def safe_path_join_def read_from_file_def
  write_to_file_def die_def die_with_def die_p_def gets_def out_def err_def usage_def
  execute_git_command_eq cstr_def Let_def split_beta

lemma cmd_save_merge_failed:
  assumes "Git (git_merge b) False \<in> set (emitted w (cmd_save E (Some b) w))"
  shows "exit_code (cmd_save E (Some b) w) = 1 \<and> disk (final (cmd_save E (Some b) w)) = disk w
       \<and> (\<exists>es r1 r2. emitted w (cmd_save E (Some b) w) = es @
             [Git (git_merge b) False, Git (git_checkout b) r1, Git (git_branch_D b) r2,
              Err ErrMerge])"
proof (cases "cmd_save E (Some b) w")
  case (Exit c w')
  with assms show ?thesis
    apply (simp add: emitted_def final_def exit_code_def)
    apply (simp add: save_defs split: if_splits option.splits)
    apply (auto simp: git_world_fields emit_fields)
    done
next
  case (Ret u w')
  with assms show ?thesis
    apply (simp add: emitted_def final_def exit_code_def)
    apply (simp add: save_defs split: if_splits option.splits)
    apply (auto simp: git_world_fields emit_fields)
    done
qed

lemma cmd_save_merged:
  assumes "Git (git_merge b) True \<in> set (emitted w (cmd_save E (Some b) w))"
  shows "\<exists>cs ok. git_calls (emitted w (cmd_save E (Some b) w)) =
             cs @ [(git_merge b, True), (git_branch_D b, ok)]
           \<and> (ok \<or> Err (WarnDeleteBranch b) \<in> set (emitted w (cmd_save E (Some b) w)))"
proof (cases "cmd_save E (Some b) w")
  case (Exit c w')
  with assms show ?thesis
    apply (simp add: emitted_def final_def exit_code_def)
    apply (simp add: save_defs split: if_splits option.splits)
    apply (auto simp: git_world_fields emit_fields)
    done
next
  case (Ret u w')
  with assms show ?thesis
    apply (simp add: emitted_def final_def exit_code_def)
    apply (simp add: save_defs split: if_splits option.splits)
    apply (auto simp: git_world_fields emit_fields)
    done
qed

section \<open>C1: save-back when the merge fails\<close>

text \<open>
  C1, as the specification states it: when the merge of the temporary branch fails,
  save-back leaves the temporary branch intact and does not delete it.
  On the code this fails: with the session \<open>exp1\<close> active, its original branch \<open>main\<close> in the
  record the program reads (\<open>/session\<close>), and a VCS in which \<open>git merge tmp\<close> fails, \<open>cmd_save\<close>
  runs \<open>git checkout tmp\<close> and then \<open>git branch -D tmp\<close>, the forced deletion of the temporary
  branch, and the VCS reports that the deletion succeeded.
\<close>

theorem save_deletes_temp_branch_counterexample:
  "fs_read_line ACTIVE_FILE disk_exp1_active = Some ''exp1'' \<and>
   fs_read_line (record_path ''session'') disk_exp1_active = Some ''main'' \<and>
   exit_code (cmd_save (stub_env [(''git merge tmp'', Done [] 1)]) (Some ''tmp'')
               (world0 disk_exp1_active)) = 1 \<and>
   emitted (world0 disk_exp1_active)
     (cmd_save (stub_env [(''git merge tmp'', Done [] 1)]) (Some ''tmp'')
        (world0 disk_exp1_active)) =
     [Git ''git checkout -b tmp'' True, Git ''git checkout main'' True,
      Git ''git merge tmp'' False, Git ''git checkout tmp'' True,
      Git ''git branch -D tmp'' True, Err ErrMerge]"
  by code_simp

text \<open>
  C1, amended. For every save-back invocation in which the merge of the temporary branch
  into \<open>original_ref\<close> fails, the operation then runs a checkout of the temporary branch and a
  forced deletion of the temporary branch (\<open>git branch -D\<close>), ignores the result of both,
  reports an error and exits with status 1, and the records on disk are what they were. In
  every invocation in which the merge succeeds, the forced deletion of the temporary branch
  is the next and last VCS command of the run, and when it fails a warning is printed.
  (Whether a temporary branch remains is therefore what the VCS made of the deletion.)
\<close>

theorem save_merge_outcomes:
  "(Git (git_merge b) False \<in> set (emitted w (cmd_save E (Some b) w)) \<longrightarrow>
      exit_code (cmd_save E (Some b) w) = 1
      \<and> disk (final (cmd_save E (Some b) w)) = disk w
      \<and> (\<exists>es r1 r2. emitted w (cmd_save E (Some b) w) = es @
            [Git (git_merge b) False, Git (git_checkout b) r1, Git (git_branch_D b) r2,
             Err ErrMerge]))
   \<and> (Git (git_merge b) True \<in> set (emitted w (cmd_save E (Some b) w)) \<longrightarrow>
      (\<exists>cs ok. git_calls (emitted w (cmd_save E (Some b) w)) =
            cs @ [(git_merge b, True), (git_branch_D b, ok)]
          \<and> (ok \<or> Err (WarnDeleteBranch b) \<in> set (emitted w (cmd_save E (Some b) w)))))"
  using cmd_save_merge_failed[of b w E] cmd_save_merged[of b w E] by blast

text \<open>Two runs with \<open>exp1\<close> active and its original branch in the record the program reads:
  one in which \<open>git merge tmp\<close> fails, one in which every command succeeds.\<close>

theorem save_merge_outcomes_witness:
  "Git (git_merge ''tmp'') False \<in> set (emitted (world0 disk_exp1_active)
      (cmd_save (stub_env [(''git merge tmp'', Done [] 1)]) (Some ''tmp'')
         (world0 disk_exp1_active))) \<and>
   exit_code (cmd_save (stub_env [(''git merge tmp'', Done [] 1)]) (Some ''tmp'')
      (world0 disk_exp1_active)) = 1 \<and>
   disk (final (cmd_save (stub_env [(''git merge tmp'', Done [] 1)]) (Some ''tmp'')
      (world0 disk_exp1_active))) = disk (world0 disk_exp1_active) \<and>
   (\<exists>es r1 r2. emitted (world0 disk_exp1_active)
      (cmd_save (stub_env [(''git merge tmp'', Done [] 1)]) (Some ''tmp'')
         (world0 disk_exp1_active)) = es @
      [Git (git_merge ''tmp'') False, Git (git_checkout ''tmp'') r1,
       Git (git_branch_D ''tmp'') r2, Err ErrMerge]) \<and>
   Git (git_merge ''tmp'') True \<in> set (emitted (world0 disk_exp1_active)
      (cmd_save (stub_env []) (Some ''tmp'') (world0 disk_exp1_active))) \<and>
   (\<exists>cs ok. git_calls (emitted (world0 disk_exp1_active)
      (cmd_save (stub_env []) (Some ''tmp'') (world0 disk_exp1_active))) =
      cs @ [(git_merge ''tmp'', True), (git_branch_D ''tmp'', ok)])"
proof -
  have h: "Git (git_merge ''tmp'') False \<in> set (emitted (world0 disk_exp1_active)
      (cmd_save (stub_env [(''git merge tmp'', Done [] 1)]) (Some ''tmp'')
         (world0 disk_exp1_active)))"
    "Git (git_merge ''tmp'') True \<in> set (emitted (world0 disk_exp1_active)
      (cmd_save (stub_env []) (Some ''tmp'') (world0 disk_exp1_active)))"
    by code_simp+
  from save_merge_outcomes[of "''tmp''" "world0 disk_exp1_active"
         "stub_env [(''git merge tmp'', Done [] 1)]"]
       save_merge_outcomes[of "''tmp''" "world0 disk_exp1_active" "stub_env []"] h
  show ?thesis by blast
qed


section \<open>C2: open on the name of an existing session\<close>





section \<open>C3: purge of inactive sessions\<close>

text \<open>
  C3, as the specification states it: \<open>purge\<close> of a named, inactive session removes its
  four records and its directory, and \<open>purge\<close> without a name removes every inactive session
  and reports the count.
  The code does not do this. Both \<open>session_file\<close> and \<open>head_file\<close> are the static path buffer,
  which holds \<open>/head\<close>, and so is \<open>session_dir\<close> in the sweep; the \<open>time\<close> and \<open>desc\<close> records are
  not named at all. For the inactive session \<open>exp1\<close> with its records under its directory
  and in the files the program uses, \<open>cmd_clean\<close> with the name unlinks \<open>/head\<close>, fails on the
  second \<open>unlink\<close> of the same path and exits with status 1; without a name it unlinks
  \<open>/head\<close>, calls \<open>rmdir\<close> on \<open>/head\<close> and reports one session cleaned. With the records under
  the directory of the session only, the named purge fails on the first \<open>unlink\<close>, and the
  sweep reports one session cleaned and has removed nothing. In all four runs the
  directory of the session and every record in it are still there.
\<close>

theorem clean_keeps_session_directory:
  "exit_code (cmd_clean (Some ''exp1'') (world0 disk_exp1)) = 1 \<and>
   emitted (world0 disk_exp1) (cmd_clean (Some ''exp1'') (world0 disk_exp1))
     = [Err ErrRemoveFiles] \<and>
   disk (final (cmd_clean (Some ''exp1'') (world0 disk_exp1))) =
     disk_exp1_spec @
     [(''/'', Dir), (''/session'', File (''main'' @ [newline])),
      (''/time'', File (''1700000000'' @ [newline]))] \<and>
   returned (cmd_clean None (world0 disk_exp1)) \<and>
   emitted (world0 disk_exp1) (cmd_clean None (world0 disk_exp1))
     = [Out (CleanedCount 1)] \<and>
   disk (final (cmd_clean None (world0 disk_exp1))) =
     disk_exp1_spec @
     [(''/'', Dir), (''/session'', File (''main'' @ [newline])),
      (''/time'', File (''1700000000'' @ [newline]))] \<and>
   exit_code (cmd_clean (Some ''exp1'') (world0 disk_exp1_spec)) = 1 \<and>
   emitted (world0 disk_exp1_spec) (cmd_clean (Some ''exp1'') (world0 disk_exp1_spec))
     = [Err ErrRemoveFiles] \<and>
   disk (final (cmd_clean (Some ''exp1'') (world0 disk_exp1_spec))) = disk_exp1_spec \<and>
   returned (cmd_clean None (world0 disk_exp1_spec)) \<and>
   emitted (world0 disk_exp1_spec) (cmd_clean None (world0 disk_exp1_spec))
     = [Out (CleanedCount 1)] \<and>
   disk (final (cmd_clean None (world0 disk_exp1_spec))) = disk_exp1_spec"
  by code_simp

section \<open>C4: resume and recover of a session whose head is the sentinel\<close>

text \<open>
  C4, as the specification states it: \<open>resume\<close> and \<open>recover\<close> check a session out as a branch,
  not detached, when its \<open>head_ref\<close> is the sentinel \<open>HEAD\<close>.
  On the code this fails: for a session whose \<open>head\<close> record is \<open>HEAD\<close>, under its directory and
  in the file the program reads, both \<open>cmd_switch\<close> and \<open>cmd_recover\<close> run
  \<open>git checkout HEAD --detach\<close>.
\<close>

theorem switch_sentinel_detached_counterexample:
  "fs_read_line (spec_path ''exp1'' ''head'') disk_exp1_sentinel = Some ''HEAD'' \<and>
   fs_read_line (record_path ''head'') disk_exp1_sentinel = Some ''HEAD'' \<and>
   emitted (world0 disk_exp1_sentinel)
     (cmd_switch (stub_env []) (Some ''exp1'') (world0 disk_exp1_sentinel)) =
     [Git ''git checkout HEAD --detach'' True, Out (Switched ''exp1'')] \<and>
   emitted (world0 disk_exp1_sentinel)
     (cmd_recover (stub_env []) (Some ''exp1'') (world0 disk_exp1_sentinel)) =
     [Git ''git rev-parse --verify HEAD'' True, Git ''git checkout HEAD --detach'' True,
      Out (Recovered ''exp1'')]"
  by code_simp

text \<open>
  C4, amended. For every session \<open>s\<close>, when the \<open>head_ref\<close> record that the program reads
  (\<open>record_path\<close>) holds \<open>h\<close>, be it a commit id or the sentinel \<open>HEAD\<close>: a \<open>resume\<close> that returns
  normally has set the active pointer to \<open>s\<close> and has run exactly one VCS command, the
  detached checkout of \<open>h\<close>; a \<open>resume\<close> that has run any VCS command at all has set the active
  pointer before; and a \<open>recover\<close> that returns normally has set the active pointer to \<open>s\<close> and
  has run the detached checkout of \<open>h\<close> as its last VCS command. The code has no separate
  treatment of the sentinel.
\<close>

theorem resume_checks_out_detached:
  assumes "fs_read_line (record_path ''head'') (disk w) = Some h"
  shows "(returned (cmd_switch E (Some s) w) \<longrightarrow>
            map_of (disk (final (cmd_switch E (Some s) w))) ACTIVE_FILE
              = Some (File (s @ [newline]))
          \<and> git_calls (emitted w (cmd_switch E (Some s) w))
              = [(git_checkout_detach DEFAULT_BUFFER_SIZE h, True)])
       \<and> (git_calls (emitted w (cmd_switch E (Some s) w)) \<noteq> [] \<longrightarrow>
            map_of (disk (final (cmd_switch E (Some s) w))) ACTIVE_FILE
              = Some (File (s @ [newline])))
       \<and> (returned (cmd_recover E (Some s) w) \<longrightarrow>
            map_of (disk (final (cmd_recover E (Some s) w))) ACTIVE_FILE
              = Some (File (s @ [newline]))
          \<and> (\<exists>es. emitted w (cmd_recover E (Some s) w) = es @
                [Git (git_checkout_detach DEFAULT_BUFFER_SIZE h) True, Out (Recovered s)]))"
proof (intro conjI impI)
  assume "returned (cmd_switch E (Some s) w)"
  then obtain u w' where r: "cmd_switch E (Some s) w = Ret u w'"
    by (cases "cmd_switch E (Some s) w") (auto simp: returned_def)
  from cmd_switch_Ret[OF r assms]
  show "map_of (disk (final (cmd_switch E (Some s) w))) ACTIVE_FILE
          = Some (File (s @ [newline]))"
    and "git_calls (emitted w (cmd_switch E (Some s) w))
          = [(git_checkout_detach DEFAULT_BUFFER_SIZE h, True)]"
    by (auto simp: r final_def emitted_def git_calls_append)
next
  assume g: "git_calls (emitted w (cmd_switch E (Some s) w)) \<noteq> []"
  show "map_of (disk (final (cmd_switch E (Some s) w))) ACTIVE_FILE
          = Some (File (s @ [newline]))"
  proof (cases "cmd_switch E (Some s) w")
    case (Exit c w')
    with cmd_switch_Exit[OF Exit] g show ?thesis
      by (simp add: final_def emitted_def)
  next
    case (Ret u w')
    with cmd_switch_Ret[OF Ret assms] show ?thesis
      by (simp add: final_def)
  qed
next
  assume "returned (cmd_recover E (Some s) w)"
  then obtain u w' where r: "cmd_recover E (Some s) w = Ret u w'"
    by (cases "cmd_recover E (Some s) w") (auto simp: returned_def)
  from cmd_recover_Ret[OF r assms]
  show "map_of (disk (final (cmd_recover E (Some s) w))) ACTIVE_FILE
          = Some (File (s @ [newline]))"
    and "\<exists>es. emitted w (cmd_recover E (Some s) w) = es @
          [Git (git_checkout_detach DEFAULT_BUFFER_SIZE h) True, Out (Recovered s)]"
    by (auto simp: r final_def emitted_def)
qed

text \<open>The runs of the counterexample: the \<open>head\<close> record of \<open>exp1\<close> is the sentinel, and the
  command line is \<open>git checkout HEAD --detach\<close>.\<close>

theorem resume_checks_out_detached_witness:
  "fs_read_line (record_path ''head'') (disk (world0 disk_exp1_sentinel)) = Some ''HEAD'' \<and>
   git_checkout_detach DEFAULT_BUFFER_SIZE ''HEAD'' = ''git checkout HEAD --detach'' \<and>
   returned (cmd_switch (stub_env []) (Some ''exp1'') (world0 disk_exp1_sentinel)) \<and>
   map_of (disk (final (cmd_switch (stub_env []) (Some ''exp1'') (world0 disk_exp1_sentinel))))
     ACTIVE_FILE = Some (File (''exp1'' @ [newline])) \<and>
   git_calls (emitted (world0 disk_exp1_sentinel)
     (cmd_switch (stub_env []) (Some ''exp1'') (world0 disk_exp1_sentinel)))
     = [(git_checkout_detach DEFAULT_BUFFER_SIZE ''HEAD'', True)] \<and>
   returned (cmd_recover (stub_env []) (Some ''exp1'') (world0 disk_exp1_sentinel)) \<and>
   (\<exists>es. emitted (world0 disk_exp1_sentinel)
     (cmd_recover (stub_env []) (Some ''exp1'') (world0 disk_exp1_sentinel)) = es @
     [Git (git_checkout_detach DEFAULT_BUFFER_SIZE ''HEAD'') True, Out (Recovered ''exp1'')])"
proof -
  have h: "fs_read_line (record_path ''head'') (disk (world0 disk_exp1_sentinel))
             = Some ''HEAD''"
    "git_checkout_detach DEFAULT_BUFFER_SIZE ''HEAD'' = ''git checkout HEAD --detach''"
    "returned (cmd_switch (stub_env []) (Some ''exp1'') (world0 disk_exp1_sentinel))"
    "returned (cmd_recover (stub_env []) (Some ''exp1'') (world0 disk_exp1_sentinel))"
    by code_simp+
  from resume_checks_out_detached[OF h(1), of "stub_env []"] h show ?thesis
    by blast
qed


section \<open>C5: the active pointer after an abort\<close>

text \<open>
  C5, as the specification states it: the active pointer is empty or names a session
  that was opened and has not been purged or aborted since.
  The code does not keep this. Three runs in a row in a repository without sessions, by a
  process that may write to the root directory: \<open>checkout exp1\<close>, \<open>abort exp1\<close>, \<open>switch exp1\<close>.
  The abort returns normally, prints that \<open>exp1\<close> was aborted and clears the pointer, but
  removes no record (all its file names are the static path buffer, which holds \<open>/desc\<close>,
  see C9), so the switch finds the \<open>head\<close> record and makes the aborted session the active
  one.
\<close>

theorem aborted_session_becomes_active:
  "returned (cmd_checkout
      (stub_env [(''git rev-parse --abbrev-ref HEAD'', Done ''main'' 0),
                 (''git rev-parse HEAD'', Done ''abc123'' 0)])
      (Some ''exp1'') None (world0 disk_fresh)) \<and>
   returned (cmd_abort (stub_env []) (Some ''exp1'')
      (fresh (final (cmd_checkout
        (stub_env [(''git rev-parse --abbrev-ref HEAD'', Done ''main'' 0),
                   (''git rev-parse HEAD'', Done ''abc123'' 0)])
        (Some ''exp1'') None (world0 disk_fresh))))) \<and>
   trace (final (cmd_abort (stub_env []) (Some ''exp1'')
      (fresh (final (cmd_checkout
        (stub_env [(''git rev-parse --abbrev-ref HEAD'', Done ''main'' 0),
                   (''git rev-parse HEAD'', Done ''abc123'' 0)])
        (Some ''exp1'') None (world0 disk_fresh)))))) =
     [Git ''git checkout main'' True, Out (AbortedSession ''exp1'')] \<and>
   fs_read_line ACTIVE_FILE (disk (final (cmd_abort (stub_env []) (Some ''exp1'')
      (fresh (final (cmd_checkout
        (stub_env [(''git rev-parse --abbrev-ref HEAD'', Done ''main'' 0),
                   (''git rev-parse HEAD'', Done ''abc123'' 0)])
        (Some ''exp1'') None (world0 disk_fresh))))))) = None \<and>
   returned (cmd_switch (stub_env []) (Some ''exp1'')
      (fresh (final (cmd_abort (stub_env []) (Some ''exp1'')
        (fresh (final (cmd_checkout
          (stub_env [(''git rev-parse --abbrev-ref HEAD'', Done ''main'' 0),
                     (''git rev-parse HEAD'', Done ''abc123'' 0)])
          (Some ''exp1'') None (world0 disk_fresh)))))))) \<and>
   fs_read_line ACTIVE_FILE (disk (final (cmd_switch (stub_env []) (Some ''exp1'')
      (fresh (final (cmd_abort (stub_env []) (Some ''exp1'')
        (fresh (final (cmd_checkout
          (stub_env [(''git rev-parse --abbrev-ref HEAD'', Done ''main'' 0),
                     (''git rev-parse HEAD'', Done ''abc123'' 0)])
          (Some ''exp1'') None (world0 disk_fresh)))))))))) = Some ''exp1''"
  by code_simp

section \<open>C6: the order in which exit resolves the disposition of uncommitted changes\<close>




section \<open>C7: the final effect of exit\<close>




section \<open>C8: list and the well-formedness of a session\<close>

text \<open>
  C8, as the specification states it: \<open>list\<close> leaves out every session whose \<open>original_ref\<close>
  or \<open>head_ref\<close> record is missing and warns about it, and flags as missing every ref of
  a well-formed session that does not resolve in the VCS.
  The code does not do this. \<open>session_file\<close> and \<open>head_file\<close> are both the static path buffer,
  which holds \<open>/head\<close>, so only that file is tested and read. A session with a \<open>head\<close> record
  and no \<open>session\<close> record (\<open>disk_head_only\<close>) is listed without a corruption warning. For the
  well-formed session \<open>exp1\<close> on \<open>main\<close>, in a VCS where \<open>main\<close> does not resolve,
  \<open>git rev-parse --verify\<close> is run on the head \<open>abc123\<close> twice and nothing is flagged (what is
  printed for both refs is the time stamp, which was read into the same buffer). And with
  the records of \<open>exp1\<close> under its directory only (\<open>disk_exp1_spec\<close>), the well-formed session is
  reported as corrupted and left out.
\<close>

theorem list_misses_missing_original_ref:
  "map_of disk_head_only (record_path ''session'') = None \<and>
   map_of disk_head_only (spec_path ''exp1'' ''session'') = None \<and>
   returned (cmd_list (stub_env []) (world0 disk_head_only)) \<and>
   emitted (world0 disk_head_only) (cmd_list (stub_env []) (world0 disk_head_only)) =
     [Out Header,
      Git ''git rev-parse --verify abc123'' True, Git ''git rev-parse --verify abc123'' True,
      Out (Entry False ''exp1''), Out (LastModified ''unknown''),
      Out (OriginalBranch ''abc123'' False), Out (SessionHead ''abc123'' False)] \<and>
   emitted (world0 disk_exp1)
     (cmd_list (stub_env [(''git rev-parse --verify main'', Done [] 1)]) (world0 disk_exp1)) =
     [Out Header,
      Git ''git rev-parse --verify abc123'' True, Git ''git rev-parse --verify abc123'' True,
      Out (Entry False ''exp1''), Out (LastModified ''1700000000''),
      Out (OriginalBranch ''1700000000'' False), Out (SessionHead ''1700000000'' False)] \<and>
   emitted (world0 disk_exp1_spec) (cmd_list (stub_env []) (world0 disk_exp1_spec)) =
     [Out Header, Err (WarnCorrupted ''exp1''), Out NoSessions]"
  by code_simp

section \<open>C9: abort of a session\<close>

text \<open>
  C9, as the specification states it: with a session active, \<open>abort\<close> without an argument
  has the effect of \<open>abort\<close> with the active name, and afterwards the session's directory is
  gone and the active pointer is empty.
  The code does not do this. \<open>session_dir\<close> and the four file names are all the static path
  buffer, which holds \<open>/desc\<close> when the four \<open>unlink\<close> calls and the \<open>rmdir\<close> are made. With \<open>exp1\<close>
  active and its records under its directory and in the files the program uses, both
  forms check out \<open>main\<close> and remove the active pointer, and the directory and every record
  stay; without an argument \<open>session\<close> is the static read buffer, which holds \<open>main\<close> by then,
  so the run reports \<open>main\<close> instead of \<open>exp1\<close>. With the records under the directory of the
  session only, both forms find no original branch, run no VCS command, report \<open>exp1\<close> as
  aborted and leave the disk as it was, the active pointer included.
\<close>

theorem abort_keeps_session_directory:
  "returned (cmd_abort (stub_env []) None (world0 disk_exp1_active)) \<and>
   emitted (world0 disk_exp1_active) (cmd_abort (stub_env []) None (world0 disk_exp1_active))
     = [Git ''git checkout main'' True, Out (AbortedSession ''main'')] \<and>
   disk (final (cmd_abort (stub_env []) None (world0 disk_exp1_active))) = disk_exp1 \<and>
   path_buffer (final (cmd_abort (stub_env []) None (world0 disk_exp1_active)))
     = ''/desc'' \<and>
   returned (cmd_abort (stub_env []) (Some ''exp1'') (world0 disk_exp1_active)) \<and>
   emitted (world0 disk_exp1_active)
     (cmd_abort (stub_env []) (Some ''exp1'') (world0 disk_exp1_active))
     = [Git ''git checkout main'' True, Out (AbortedSession ''exp1'')] \<and>
   disk (final (cmd_abort (stub_env []) (Some ''exp1'') (world0 disk_exp1_active)))
     = disk_exp1 \<and>
   path_buffer (final (cmd_abort (stub_env []) (Some ''exp1'') (world0 disk_exp1_active)))
     = ''/desc'' \<and>
   map_of disk_exp1 (KAISHAKU_DIR @ ''/exp1'') = Some Dir \<and>
   returned (cmd_abort (stub_env []) None (world0 disk_exp1_spec_active)) \<and>
   emitted (world0 disk_exp1_spec_active)
     (cmd_abort (stub_env []) None (world0 disk_exp1_spec_active))
     = [Out (AbortedSession ''exp1'')] \<and>
   disk (final (cmd_abort (stub_env []) None (world0 disk_exp1_spec_active)))
     = disk_exp1_spec_active \<and>
   returned (cmd_abort (stub_env []) (Some ''exp1'') (world0 disk_exp1_spec_active)) \<and>
   emitted (world0 disk_exp1_spec_active)
     (cmd_abort (stub_env []) (Some ''exp1'') (world0 disk_exp1_spec_active))
     = [Out (AbortedSession ''exp1'')] \<and>
   disk (final (cmd_abort (stub_env []) (Some ''exp1'') (world0 disk_exp1_spec_active)))
     = disk_exp1_spec_active \<and>
   fs_read_line ACTIVE_FILE disk_exp1_spec_active = Some ''exp1''"
  by code_simp

section \<open>C10: a negative answer at the confirmation prompt\<close>




end
